theory Spec2Isabelle
  imports Main "HOL-Library.Word"
begin

unbundle bit_operations_syntax

section \<open>Python values, exceptions and attribute lookup\<close>

text \<open>
  The handlers of \<^verbatim>\<open>orchid/widgets/web/__init__.py\<close> are Python methods called by the
  web engine. An exception that leaves a handler is a value of the model: every handler
  returns what it raised (if anything) together with the state it had reached, because
  the assignments made before the \<^verbatim>\<open>raise\<close> stay in place.
\<close>

datatype error =
    AttributeError string string
  | TypeError string
  | IndexError
  | ValueError
  | UnboundLocalError string

type_synonym 'a result = "error + 'a"

text \<open>
  Attribute lookup \<^verbatim>\<open>obj.name\<close>: the name is searched in the members of the object's
  class; a name that is not there raises \<^verbatim>\<open>AttributeError\<close>.
\<close>

definition lookup_attribute :: "string \<Rightarrow> string list \<Rightarrow> string \<Rightarrow> unit result" where
  "lookup_attribute cls members name =
     (if name \<in> set members then Inr () else Inl (AttributeError cls name))"

text \<open>The methods of Python's built-in \<^verbatim>\<open>str\<close> and \<^verbatim>\<open>list\<close>.\<close>

definition str_members :: "string list" where
  "str_members =
     [''capitalize'', ''casefold'', ''center'', ''count'', ''encode'', ''endswith'',
      ''expandtabs'', ''find'', ''format'', ''format_map'', ''index'', ''isalnum'',
      ''isalpha'', ''isascii'', ''isdecimal'', ''isdigit'', ''isidentifier'', ''islower'',
      ''isnumeric'', ''isprintable'', ''isspace'', ''istitle'', ''isupper'', ''join'',
      ''ljust'', ''lower'', ''lstrip'', ''maketrans'', ''partition'', ''removeprefix'',
      ''removesuffix'', ''replace'', ''rfind'', ''rindex'', ''rjust'', ''rpartition'',
      ''rsplit'', ''rstrip'', ''split'', ''splitlines'', ''startswith'', ''strip'',
      ''swapcase'', ''title'', ''translate'', ''upper'', ''zfill'']"

definition list_members :: "string list" where
  "list_members =
     [''append'', ''clear'', ''copy'', ''count'', ''extend'', ''index'', ''insert'',
      ''pop'', ''remove'', ''reverse'', ''sort'']"

text \<open>
  \<^verbatim>\<open>self.tr(text)\<close>: with no translation catalogue installed the source text is
  returned, as a Python \<^verbatim>\<open>str\<close>.
\<close>

definition tr :: "string \<Rightarrow> string" where
  "tr s = s"

text \<open>\<^verbatim>\<open>"...{}...".format(n)\<close> needs the decimal text of an integer.\<close>

fun digits :: "nat \<Rightarrow> string" where
  "digits n =
     (if n < 10 then [char_of (48 + n)]
      else digits (n div 10) @ [char_of (48 + n mod 10)])"

definition str_of_int :: "int \<Rightarrow> string" where
  "str_of_int i = (if i < 0 then CHR ''-'' # digits (nat (- i)) else digits (nat i))"

section \<open>The toolkit as the handlers see it\<close>

text \<open>
  What the user is shown is recorded as a list of prompts; what the user answers is an
  argument of the handler that asks.
\<close>

datatype StandardButton = Yes | No

datatype DialogCode = Rejected | Accepted

datatype parent = ThisPage | ThisView | TopLevelWindow

text \<open>
  The parent of a dialog or message box is a \<^verbatim>\<open>QWidget\<close>. A view and its top-level
  window are widgets. A page is not: \<^verbatim>\<open>WebPage\<close> derives from \<^verbatim>\<open>QWebEnginePage\<close>,
  a \<^verbatim>\<open>QObject\<close>, and the toolkit refuses it as a parent with \<^verbatim>\<open>TypeError\<close>.
\<close>

fun is_QWidget :: "parent \<Rightarrow> bool" where
  "is_QWidget ThisPage = False"
| "is_QWidget ThisView = True"
| "is_QWidget TopLevelWindow = True"

definition widget_parent :: "parent \<Rightarrow> unit result" where
  "widget_parent p =
     (if is_QWidget p then Inr ()
      else Inl (TypeError ''argument 1 has unexpected type WebPage''))"

record QDialog =
  modal :: bool
  windowFlags :: "32 word"
  windowTitle :: string

definition WindowContextHelpButtonHint :: "32 word" where
  "WindowContextHelpButtonHint = 0x00010000"

text \<open>\<^verbatim>\<open>QDialog(self)\<close>: a new dialog, not modal, with the platform's default flags.\<close>

definition QDialog_new :: "32 word \<Rightarrow> QDialog" where
  "QDialog_new default_flags =
     \<lparr>modal = False, windowFlags = default_flags, windowTitle = []\<rparr>"

text \<open>\<^verbatim>\<open>QDialog(parent)\<close>, with the parent checked.\<close>

definition QDialog_with_parent :: "parent \<Rightarrow> 32 word \<Rightarrow> QDialog result" where
  "QDialog_with_parent p default_flags =
     (case widget_parent p of
        Inl e \<Rightarrow> Inl e
      | Inr _ \<Rightarrow> Inr (QDialog_new default_flags))"

datatype prompt =
    Dialog_exec QDialog
  | MessageBox_critical parent string string
  | MessageBox_question parent string string

text \<open>\<^verbatim>\<open>QMessageBox.critical(parent, title, text)\<close>: the box it shows, or the error.\<close>

definition QMessageBox_critical :: "parent \<Rightarrow> string \<Rightarrow> string \<Rightarrow> prompt result" where
  "QMessageBox_critical p title body =
     (case widget_parent p of
        Inl e \<Rightarrow> Inl e
      | Inr _ \<Rightarrow> Inr (MessageBox_critical p title body))"

text \<open>
  The class \<^verbatim>\<open>QMessageBox\<close> has static functions that show a message box, and the
  values of its enumerations as class attributes. \<^verbatim>\<open>QMessageBox.question\<close> is the
  static function that asks a Yes/No question; \<^verbatim>\<open>QMessageBox.Question\<close> is the value
  of the enumeration \<^verbatim>\<open>QMessageBox.Icon\<close> that names the question-mark icon. Python is
  case sensitive: the two are different attributes, and an enumeration value cannot be
  called.
\<close>

datatype member_kind = StaticFunction | EnumValue string

definition QMessageBox_member :: "string \<Rightarrow> member_kind option" where
  "QMessageBox_member name =
     (if name \<in> set [''about'', ''aboutQt'', ''critical'', ''information'', ''question'',
                      ''warning'']
      then Some StaticFunction
      else if name \<in> set [''NoIcon'', ''Information'', ''Warning'', ''Critical'',
                           ''Question'']
      then Some (EnumValue ''Icon'')
      else if name \<in> set [''Yes'', ''No'', ''Ok'', ''Cancel'']
      then Some (EnumValue ''StandardButton'')
      else None)"

definition QMessageBox_call :: "string \<Rightarrow> unit result" where
  "QMessageBox_call name =
     (case QMessageBox_member name of
        None \<Rightarrow> Inl (AttributeError ''QMessageBox'' name)
      | Some (EnumValue enum) \<Rightarrow> Inl (TypeError (enum @ '' object is not callable''))
      | Some StaticFunction \<Rightarrow> Inr ())"

section \<open>WebView: load progress and favicon\<close>

datatype StandardPixmap = SP_BrowserStop | SP_BrowserReload | SP_MessageBoxInformation

text \<open>
  A \<^verbatim>\<open>QIcon\<close> is the null icon \<^verbatim>\<open>QIcon()\<close>, a page's favicon, or one of the style's
  standard icons.
\<close>

datatype QIcon = NullIcon | Favicon string | StandardIcon StandardPixmap

text \<open>\<^verbatim>\<open>self.style().standardIcon(pixmap)\<close>\<close>

definition standardIcon :: "StandardPixmap \<Rightarrow> QIcon" where
  "standardIcon pixmap = StandardIcon pixmap"

datatype WebAction = Forward | Back | Reload | Stop

datatype signal =
    signal_webaction_state_changed WebAction bool
  | signal_favicon_changed QIcon
  | signal_dev_tools_requested nat

text \<open>
  The part of a view that the toolkit's \<^verbatim>\<open>QWebEngineView\<close> owns: the icon of the
  page, which is the null icon as long as the page has no favicon, the page
  \<^verbatim>\<open>self.page()\<close> and that page's profile.
\<close>

record QWebEngineView =
  icon :: QIcon
  page :: nat
  profile :: nat

text \<open>
  A \<^verbatim>\<open>WebView\<close> adds the field \<^verbatim>\<open>_load_progress\<close>. The model also keeps the
  connections made by \<^verbatim>\<open>__init__\<close>, the signals the view has emitted, the prompts it
  has shown and how often it has been asked to reload.
\<close>

record WebView = QWebEngineView +
  load_progress :: int
  connections :: "(string \<times> string) list"
  emitted :: "signal list"
  shown :: "prompt list"
  reloads :: nat

definition WebView_init :: "QWebEngineView \<Rightarrow> WebView" where
  "WebView_init base =
     \<lparr>icon = icon base, page = page base, profile = profile base,
      load_progress = 100,
      connections =
        [(''loadStarted'', ''_on_load_started''),
         (''loadProgress'', ''_on_load_progress_changed''),
         (''loadFinished'', ''_on_load_finished''),
         (''iconChanged'', ''_on_favicon_changed''),
         (''renderProcessTerminated'', ''_on_render_process_terminated'')],
      emitted = [], shown = [], reloads = 0\<rparr>"

definition get_load_progress :: "WebView \<Rightarrow> int" where
  "get_load_progress self = load_progress self"

text \<open>
  \<^verbatim>\<open>self.icon()\<close> as a Python value: the toolkit returns a \<^verbatim>\<open>QIcon\<close> object for every
  view, the null icon when the page has no favicon, and never \<^verbatim>\<open>None\<close>.
\<close>

definition icon_value :: "WebView \<Rightarrow> QIcon option" where
  "icon_value self = Some (icon self)"

text \<open>The \<open>None\<close> case is the source's \<^verbatim>\<open>icon is not None\<close> failing.\<close>

definition get_favicon :: "WebView \<Rightarrow> QIcon" where
  "get_favicon self =
     (case icon_value self of
        Some i \<Rightarrow> i
      | None \<Rightarrow>
          if load_progress self < 0 then standardIcon SP_BrowserStop
          else if load_progress self < 100 then standardIcon SP_BrowserReload
          else standardIcon SP_MessageBoxInformation)"

text \<open>
  The attributes a \<^verbatim>\<open>WebView\<close> has: the members the class defines in the source, and the
  members of \<^verbatim>\<open>QWebEngineView\<close> that the source uses on \<^verbatim>\<open>self\<close>. The accessor for the
  icon is \<^verbatim>\<open>icon\<close> in the toolkit and \<^verbatim>\<open>get_favicon\<close> in the class; no class of the
  hierarchy defines \<^verbatim>\<open>get_icon\<close>.
\<close>

definition WebView_members :: "string list" where
  "WebView_members =
     [''signal_webaction_state_changed'', ''signal_favicon_changed'',
      ''signal_dev_tools_requested'', ''__init__'', ''_on_load_started'',
      ''_on_load_progress_changed'', ''_on_load_finished'', ''_on_favicon_changed'',
      ''_on_render_process_terminated'', ''_on_webaction_changed'',
      ''_on_dev_tools_requested'', ''set_page'', ''get_load_progress'',
      ''is_webaction_enabled'', ''get_favicon'', ''createWindow'', ''contextMenuEvent'',
      ''loadStarted'', ''loadProgress'', ''loadFinished'', ''iconChanged'',
      ''renderProcessTerminated'', ''icon'', ''iconUrl'', ''page'', ''setPage'',
      ''reload'', ''style'', ''window'', ''tr'']"

text \<open>
  \<^verbatim>\<open>self.get_icon()\<close>: what the call would give, were the attribute there, is not
  written anywhere; the model takes the icon of \<^verbatim>\<open>get_favicon\<close> for it.
\<close>

definition get_icon :: "WebView \<Rightarrow> QIcon result" where
  "get_icon self =
     (case lookup_attribute ''WebView'' WebView_members ''get_icon'' of
        Inl e \<Rightarrow> Inl e
      | Inr _ \<Rightarrow> Inr (get_favicon self))"

definition emit :: "signal \<Rightarrow> WebView \<Rightarrow> WebView" where
  "emit s self = self\<lparr>emitted := emitted self @ [s]\<rparr>"

definition on_load_started :: "WebView \<Rightarrow> error option \<times> WebView" where
  "on_load_started self =
     (let self = self\<lparr>load_progress := 0\<rparr> in
      case get_icon self of
        Inl e \<Rightarrow> (Some e, self)
      | Inr i \<Rightarrow> (None, emit (signal_favicon_changed i) self))"

definition on_load_progress_changed :: "WebView \<Rightarrow> int \<Rightarrow> error option \<times> WebView" where
  "on_load_progress_changed self progress = (None, self\<lparr>load_progress := progress\<rparr>)"

definition on_load_finished :: "WebView \<Rightarrow> bool \<Rightarrow> error option \<times> WebView" where
  "on_load_finished self success =
     (None, self\<lparr>load_progress := (if success then 100 else - 1)\<rparr>)"

text \<open>
  The engine's load notifications, delivered through the connections of \<^verbatim>\<open>__init__\<close>.
  The next notification finds the view as the previous handler left it, also when that
  handler raised. \<open>progress_trace\<close> lists what \<^verbatim>\<open>get_load_progress\<close> returns after
  each event.
\<close>

datatype load_event = LoadStarted | LoadProgress int | LoadFinished bool

fun deliver :: "load_event \<Rightarrow> WebView \<Rightarrow> WebView" where
  "deliver LoadStarted self = snd (on_load_started self)"
| "deliver (LoadProgress p) self = snd (on_load_progress_changed self p)"
| "deliver (LoadFinished success) self = snd (on_load_finished self success)"

fun progress_trace :: "load_event list \<Rightarrow> WebView \<Rightarrow> int list" where
  "progress_trace [] self = []"
| "progress_trace (e # es) self =
     get_load_progress (deliver e self) # progress_trace es (deliver e self)"

section \<open>WebView: render process termination\<close>

datatype RenderProcessTerminationStatus =
    NormalTerminationStatus
  | AbnormalTerminationStatus
  | CrashedTerminationStatus
  | KilledTerminationStatus

text \<open>
  The \<^verbatim>\<open>if\<close>/\<^verbatim>\<open>elif\<close> chain binds \<^verbatim>\<open>msg\<close>; it has no \<^verbatim>\<open>else\<close>, so a status that
  matches none of the four leaves \<^verbatim>\<open>msg\<close> unbound.
\<close>

definition termination_msg :: "RenderProcessTerminationStatus \<Rightarrow> string result" where
  "termination_msg status =
     (if status = NormalTerminationStatus then Inr (tr ''Render process normal exit.'')
      else if status = AbnormalTerminationStatus then Inr (tr ''Render process abnormal exit.'')
      else if status = CrashedTerminationStatus then Inr (tr ''Render process crashed.'')
      else if status = KilledTerminationStatus then Inr (tr ''Render process killed.'')
      else Inl (UnboundLocalError ''msg''))"

definition reload_question :: "int \<Rightarrow> string" where
  "reload_question status_code =
     tr (''Render process exited with code: '' @ str_of_int status_code
         @ [CHR 0x0A] @ ''Do you want to reload the page?'')"

text \<open>
  \<open>user\<close> is the button the user would press in the message box. The source calls
  \<^verbatim>\<open>QMessageBox.Question(self.window(), msg, text)\<close>, with a capital Q.
\<close>

definition on_render_process_terminated ::
  "StandardButton \<Rightarrow> WebView \<Rightarrow> RenderProcessTerminationStatus \<Rightarrow> int
     \<Rightarrow> error option \<times> WebView" where
  "on_render_process_terminated user self status status_code =
     (case termination_msg status of
        Inl e \<Rightarrow> (Some e, self)
      | Inr msg \<Rightarrow>
          (case QMessageBox_call ''Question'' of
             Inl e \<Rightarrow> (Some e, self)
           | Inr _ \<Rightarrow>
               (let self = self\<lparr>shown := shown self
                      @ [MessageBox_question TopLevelWindow msg (reload_question status_code)]\<rparr>
                in if user = Yes then (None, self\<lparr>reloads := Suc (reloads self)\<rparr>)
                   else (None, self))))"

section \<open>WebView: new windows\<close>

datatype WebWindowType =
    WebBrowserWindow
  | WebBrowserTab
  | WebDialog
  | WebBrowserBackgroundTab

text \<open>
  The argument of \<^verbatim>\<open>createWindow\<close> is compared with the members of
  \<^verbatim>\<open>WebPage.WebWindowType\<close>; any other Python value reaches the final \<^verbatim>\<open>else\<close>.
\<close>

datatype window_type_value = EnumMember WebWindowType | OtherValue int

text \<open>
  A Python value handed to \<^verbatim>\<open>signal.connect\<close>: a bound method of the view, or what a
  call of a method without \<^verbatim>\<open>return\<close> evaluates to, \<^verbatim>\<open>None\<close>. \<^verbatim>\<open>connect\<close> accepts a
  callable and raises \<^verbatim>\<open>TypeError\<close> for \<^verbatim>\<open>None\<close>.
\<close>

datatype pyvalue = PyNone | BoundMethod string

definition pyqt_connect :: "pyvalue \<Rightarrow> string result" where
  "pyqt_connect v =
     (case v of
        BoundMethod m \<Rightarrow> Inr m
      | PyNone \<Rightarrow> Inl (TypeError ''argument 1 has unexpected type NoneType''))"

definition on_dev_tools_requested :: "WebView \<Rightarrow> pyvalue \<times> WebView" where
  "on_dev_tools_requested self = (PyNone, emit (signal_dev_tools_requested (page self)) self)"

text \<open>
  \<^verbatim>\<open>DesktopWindow\<close> and \<^verbatim>\<open>PopupWindow\<close> come from \<^verbatim>\<open>orchid.widgets.windows\<close>, which is
  not among the sources. The views that the tab widget's three operations return, and
  the view of a popup window made for a profile, are parameters; the calls made to
  these collaborators are recorded in order.
\<close>

type_synonym view_handle = nat

record TabWidget =
  add_tab :: view_handle
  add_background_tab :: view_handle
  current_tab :: view_handle

datatype collaborator_call =
    Call_get_central_widget
  | Call_add_tab
  | Call_add_background_tab
  | Call_current_tab
  | Call_PopupWindow nat

record createWindow_outcome =
  returned :: "view_handle option result"
  calls :: "collaborator_call list"
  view_after :: WebView
  popup_dev_tools_slots :: "string list"

definition createWindow ::
  "TabWidget \<Rightarrow> (nat \<Rightarrow> view_handle) \<Rightarrow> WebView \<Rightarrow> window_type_value
     \<Rightarrow> createWindow_outcome" where
  "createWindow tab_widget popup_view self window_type =
     (if window_type = EnumMember WebBrowserTab then
        \<lparr>returned = Inr (Some (add_tab tab_widget)),
         calls = [Call_get_central_widget, Call_add_tab],
         view_after = self, popup_dev_tools_slots = []\<rparr>
      else if window_type = EnumMember WebBrowserBackgroundTab then
        \<lparr>returned = Inr (Some (add_background_tab tab_widget)),
         calls = [Call_get_central_widget, Call_add_background_tab],
         view_after = self, popup_dev_tools_slots = []\<rparr>
      else if window_type = EnumMember WebBrowserWindow then
        \<lparr>returned = Inr (Some (current_tab tab_widget)),
         calls = [Call_get_central_widget, Call_current_tab],
         view_after = self, popup_dev_tools_slots = []\<rparr>
      else if window_type = EnumMember WebDialog then
        (let (argument, self') = on_dev_tools_requested self in
         case pyqt_connect argument of
           Inl e \<Rightarrow>
             \<lparr>returned = Inl e,
              calls = [Call_get_central_widget, Call_PopupWindow (profile self)],
              view_after = self', popup_dev_tools_slots = []\<rparr>
         | Inr slot \<Rightarrow>
             \<lparr>returned = Inr (Some (popup_view (profile self))),
              calls = [Call_get_central_widget, Call_PopupWindow (profile self)],
              view_after = self', popup_dev_tools_slots = [slot]\<rparr>)
      else
        \<lparr>returned = Inr None, calls = [Call_get_central_widget],
         view_after = self, popup_dev_tools_slots = []\<rparr>)"

section \<open>WebView: context menu\<close>

text \<open>
  The actions of a menu are objects shared between the menu and the page:
  \<^verbatim>\<open>page.action(...)\<close> and \<^verbatim>\<open>menu.actions()\<close> return references, and \<^verbatim>\<open>setText\<close>
  changes the object. The model keeps the objects in a store; \<^verbatim>\<open>in\<close> and
  \<^verbatim>\<open>list.index\<close> compare references.
\<close>

type_synonym ref = nat

record QAction =
  action_text :: string
  is_separator :: bool
  triggered_slots :: "string list"

record menu_world =
  objects :: "ref \<rightharpoonup> QAction"
  next_ref :: ref
  menu_actions :: "ref list"
  popup_at :: "(int \<times> int) option"

datatype page_action = InspectElement | ViewSource

text \<open>
  The members of \<^verbatim>\<open>QMenu\<close> that add, insert or list entries, or show the menu. The
  toolkit spells the one that appends a separator \<^verbatim>\<open>addSeparator\<close>.
\<close>

definition QMenu_members :: "string list" where
  "QMenu_members =
     [''actions'', ''addAction'', ''addActions'', ''addMenu'', ''addSection'',
      ''addSeparator'', ''clear'', ''exec'', ''exec_'', ''insertAction'', ''insertActions'',
      ''insertMenu'', ''insertSection'', ''insertSeparator'', ''popup'', ''removeAction'']"

definition QAction_new :: "menu_world \<Rightarrow> ref \<times> menu_world" where
  "QAction_new w =
     (next_ref w,
      w\<lparr>objects := (objects w)(next_ref w \<mapsto>
           \<lparr>action_text = [], is_separator = False, triggered_slots = []\<rparr>),
        next_ref := Suc (next_ref w)\<rparr>)"

definition setText :: "ref \<Rightarrow> string \<Rightarrow> menu_world \<Rightarrow> menu_world" where
  "setText r s w =
     (case objects w r of
        None \<Rightarrow> w
      | Some a \<Rightarrow> w\<lparr>objects := (objects w)(r \<mapsto> a\<lparr>action_text := s\<rparr>)\<rparr>)"

definition connect_triggered :: "ref \<Rightarrow> string \<Rightarrow> menu_world \<Rightarrow> menu_world" where
  "connect_triggered r slot w =
     (case objects w r of
        None \<Rightarrow> w
      | Some a \<Rightarrow>
          w\<lparr>objects := (objects w)(r \<mapsto> a\<lparr>triggered_slots := triggered_slots a @ [slot]\<rparr>)\<rparr>)"

text \<open>\<^verbatim>\<open>menu.addSeperator()\<close>, as the source spells it.\<close>

definition addSeperator :: "menu_world \<Rightarrow> menu_world result" where
  "addSeperator w =
     (case lookup_attribute ''QMenu'' QMenu_members ''addSeperator'' of
        Inl e \<Rightarrow> Inl e
      | Inr _ \<Rightarrow>
          Inr (w\<lparr>objects := (objects w)(next_ref w \<mapsto>
                    \<lparr>action_text = [], is_separator = True, triggered_slots = []\<rparr>),
                 menu_actions := menu_actions w @ [next_ref w],
                 next_ref := Suc (next_ref w)\<rparr>))"

text \<open>
  \<^verbatim>\<open>insertAction(before, action)\<close> takes the action to insert before and the action to
  insert. The arguments of the call are given as a list: the source passes one.
\<close>

fun insert_before :: "ref \<Rightarrow> ref \<Rightarrow> ref list \<Rightarrow> ref list" where
  "insert_before before a [] = [a]"
| "insert_before before a (x # xs) =
     (if x = before then a # x # xs else x # insert_before before a xs)"

definition insertAction :: "ref list \<Rightarrow> menu_world \<Rightarrow> menu_world result" where
  "insertAction arguments w =
     (case arguments of
        [before, a] \<Rightarrow> Inr (w\<lparr>menu_actions := insert_before before a (menu_actions w)\<rparr>)
      | _ \<Rightarrow> Inl (TypeError ''insertAction(before, action): not enough arguments''))"

fun list_index :: "'a list \<Rightarrow> 'a \<Rightarrow> nat result" where
  "list_index [] x = Inl ValueError"
| "list_index (y # ys) x =
     (if y = x then Inr 0
      else case list_index ys x of Inl e \<Rightarrow> Inl e | Inr i \<Rightarrow> Inr (Suc i))"

definition popup :: "int \<times> int \<Rightarrow> menu_world \<Rightarrow> menu_world" where
  "popup pos w = w\<lparr>popup_at := Some pos\<rparr>"

text \<open>
  \<open>action_of\<close> is \<^verbatim>\<open>self.page().action\<close>; \<open>w\<close> holds the menu that
  \<^verbatim>\<open>createStandardContextMenu()\<close> returned; \<open>globalPos\<close> is \<^verbatim>\<open>event.globalPos()\<close>.
\<close>

definition contextMenuEvent ::
  "(page_action \<Rightarrow> ref) \<Rightarrow> menu_world \<Rightarrow> int \<times> int \<Rightarrow> error option \<times> menu_world" where
  "contextMenuEvent action_of w globalPos =
     (let actions = menu_actions w;
          webaction = action_of InspectElement
      in if webaction \<notin> set actions then
           (case (if action_of ViewSource \<notin> set actions then addSeperator w else Inr w) of
              Inl e \<Rightarrow> (Some e, w)
            | Inr w1 \<Rightarrow>
                (let (action, w2) = QAction_new w1;
                     w3 = setText action (tr ''Open inspector in new window'') w2;
                     w4 = connect_triggered action ''_on_dev_tools_requested'' w3
                 in case insertAction [action] w4 of
                      Inl e \<Rightarrow> (Some e, w4)
                    | Inr w5 \<Rightarrow> (None, popup globalPos w5)))
         else
           (case list_index actions webaction of
              Inl e \<Rightarrow> (Some e, w)
            | Inr i \<Rightarrow> (None, popup globalPos (setText (actions ! i) (tr ''Inspect element'') w))))"

section \<open>WebPage: certificate errors\<close>

record QWebEngineCertificateError =
  isOverridable :: bool
  errorDescription :: string

text \<open>
  \<open>default_flags\<close> are the window flags of a new dialog; \<open>user\<close> is how the user would
  close the dialog, the value of \<^verbatim>\<open>dialog.exec()\<close>. The result is the decision, or the
  exception that left the method, and the prompts shown. Both branches give \<^verbatim>\<open>self\<close>,
  the page, as the parent.
\<close>

definition certificateError ::
  "32 word \<Rightarrow> DialogCode \<Rightarrow> QWebEngineCertificateError \<Rightarrow> bool result \<times> prompt list" where
  "certificateError default_flags user error =
     (if isOverridable error then
        (case QDialog_with_parent ThisPage default_flags of
           Inl e \<Rightarrow> (Inl e, [])
         | Inr dialog \<Rightarrow>
             (let dialog = dialog\<lparr>modal := True\<rparr>;
                  dialog = dialog\<lparr>windowFlags :=
                             windowFlags dialog AND WindowContextHelpButtonHint\<rparr>;
                  dialog = dialog\<lparr>windowTitle := tr ''Certificate Error''\<rparr>
              in (Inr (user = Accepted), [Dialog_exec dialog])))
      else
        (case QMessageBox_critical ThisPage (tr ''Certificate Error'') (errorDescription error) of
           Inl e \<Rightarrow> (Inl e, [])
         | Inr box \<Rightarrow> (Inr False, [box])))"

section \<open>WebPage: authentication\<close>

text \<open>
  The engine passes a \<^verbatim>\<open>QAuthenticator\<close> object for the handler to fill in. In Python
  the parameter \<^verbatim>\<open>auth\<close> is a local name bound to a reference to that object; the
  object itself lives in the store. The outcome of a handler is the store, the final
  binding of its local name \<^verbatim>\<open>auth\<close>, the dialog it built and the prompts it showed.

  The dialog of these handlers has the page as parent as well, so the toolkit ends
  them at that line as it ends \<^verbatim>\<open>certificateError\<close>, with the sink as it came. The
  model follows the statements themselves to the last one, \<^verbatim>\<open>auth = None\<close>, to show
  what that statement does to the sink.
\<close>

record QAuthenticator =
  auth_user :: string
  auth_password :: string

datatype reference = NoneRef | Ref nat

record QUrl =
  url_scheme :: string
  url_host :: string

record auth_outcome =
  authenticators :: "nat \<rightharpoonup> QAuthenticator"
  local_auth :: reference
  local_dialog :: QDialog
  auth_prompts :: "prompt list"

definition on_authentication_required ::
  "32 word \<Rightarrow> (nat \<rightharpoonup> QAuthenticator) \<Rightarrow> QUrl \<Rightarrow> reference \<Rightarrow> auth_outcome" where
  "on_authentication_required default_flags store request auth =
     (let dialog = QDialog_new default_flags;
          dialog = dialog\<lparr>modal := True\<rparr>;
          dialog = dialog\<lparr>windowFlags := windowFlags dialog AND WindowContextHelpButtonHint\<rparr>;
          auth = NoneRef
      in \<lparr>authenticators = store, local_auth = auth, local_dialog = dialog,
          auth_prompts = []\<rparr>)"

definition on_proxy_authentication_required ::
  "32 word \<Rightarrow> (nat \<rightharpoonup> QAuthenticator) \<Rightarrow> QUrl \<Rightarrow> reference \<Rightarrow> string \<Rightarrow> auth_outcome" where
  "on_proxy_authentication_required default_flags store request auth proxy_host =
     (let dialog = QDialog_new default_flags;
          dialog = dialog\<lparr>modal := True\<rparr>;
          dialog = dialog\<lparr>windowFlags := windowFlags dialog AND WindowContextHelpButtonHint\<rparr>;
          auth = NoneRef
      in \<lparr>authenticators = store, local_auth = auth, local_dialog = dialog,
          auth_prompts = []\<rparr>)"


section \<open>WebPage: feature permissions\<close>

text \<open>
  The features of \<^verbatim>\<open>QWebEnginePage.Feature\<close>. The dictionary of the handler maps seven
  of them to a question; \<^verbatim>\<open>Notifications\<close> has no entry.
\<close>

datatype Feature =
    Notifications
  | Geolocation
  | MediaAudioCapture
  | MediaVideoCapture
  | MediaAudioVideoCapture
  | MouseLock
  | DesktopVideoCapture
  | DesktopAudioVideoCapture

datatype PermissionPolicy =
    PermissionUnknown
  | PermissionGrantedByUser
  | PermissionDeniedByUser

record WebPage =
  page_prompts :: "prompt list"
  permissions :: "(QUrl \<times> Feature \<times> PermissionPolicy) list"

definition setFeaturePermission ::
  "WebPage \<Rightarrow> QUrl \<Rightarrow> Feature \<Rightarrow> PermissionPolicy \<Rightarrow> WebPage" where
  "setFeaturePermission self securityOrigin feature policy =
     self\<lparr>permissions := permissions self @ [(securityOrigin, feature, policy)]\<rparr>"

definition features :: "QUrl \<Rightarrow> (Feature \<times> string) list" where
  "features request =
     [(Geolocation,
         tr (''Allow '' @ url_host request @ '' to access your location information?'')),
      (MediaAudioCapture,
         tr (''Allow '' @ url_host request @ '' to access your microphone?'')),
      (MediaVideoCapture,
         tr (''Allow '' @ url_host request @ '' to access your webcam?'')),
      (MediaAudioVideoCapture,
         tr (''Allow '' @ url_host request @ '' to access your microphone and webcam?'')),
      (MouseLock,
         tr (''Allow '' @ url_host request @ '' to lock your mouse cursor?'')),
      (DesktopVideoCapture,
         tr (''Allow '' @ url_host request @ '' to capture video of your desktop?'')),
      (DesktopAudioVideoCapture,
         tr (''Allow '' @ url_host request
             @ '' to capture audio and video of your desktop?''))]"

text \<open>\<^verbatim>\<open>d.get(key, dflt)\<close>\<close>

definition dict_get :: "('k \<times> 'v) list \<Rightarrow> 'k \<Rightarrow> 'v \<Rightarrow> 'v" where
  "dict_get d k dflt = (case map_of d k of None \<Rightarrow> dflt | Some v \<Rightarrow> v)"

text \<open>
  \<^verbatim>\<open>question.isEmpty()\<close> on a Python \<^verbatim>\<open>str\<close>. \<^verbatim>\<open>isEmpty\<close> is the emptiness test of
  the toolkit's C++ string class; were it a method of \<^verbatim>\<open>str\<close>, this is what it would
  return.
\<close>

definition str_isEmpty :: "string \<Rightarrow> bool result" where
  "str_isEmpty s =
     (case lookup_attribute ''str'' str_members ''isEmpty'' of
        Inl e \<Rightarrow> Inl e
      | Inr _ \<Rightarrow> Inr (s = []))"

text \<open>
  \<open>user\<close> is the button the user would press in the message box. The third parameter
  \<^verbatim>\<open>Feature\<close> of the source is never used. \<^verbatim>\<open>and\<close> evaluates its second operand, the
  message box, only when the first is true.
\<close>

definition on_feature_permission_requested ::
  "StandardButton \<Rightarrow> WebPage \<Rightarrow> QUrl \<Rightarrow> Feature \<Rightarrow> 'a \<Rightarrow> error option \<times> WebPage" where
  "on_feature_permission_requested user self request feature Feature_arg =
     (let question = dict_get (features request) feature [] in
      case str_isEmpty question of
        Inl e \<Rightarrow> (Some e, self)
      | Inr no_text \<Rightarrow>
          if \<not> no_text then
            (let self = self\<lparr>page_prompts := page_prompts self
                   @ [MessageBox_question ThisPage (tr ''Permission Request'') question]\<rparr>
             in if user = Yes
                then (None, setFeaturePermission self request feature PermissionGrantedByUser)
                else (None, setFeaturePermission self request feature PermissionDeniedByUser))
          else (None, setFeaturePermission self request feature PermissionDeniedByUser))"

section \<open>WebPage: client certificates\<close>

text \<open>
  \<^verbatim>\<open>selection.certificates()\<close> arrives in Python as a \<^verbatim>\<open>list\<close> of certificates.
  \<^verbatim>\<open>at\<close> is the indexing function of the toolkit's C++ vector class; were it a method
  of \<^verbatim>\<open>list\<close>, this is what it would return.
\<close>

type_synonym QSslCertificate = string

record QWebEngineClientCertificateSelection =
  certificates :: "QSslCertificate list"
  selected :: "QSslCertificate option"
  selection_prompts :: "prompt list"

definition list_at :: "'a list \<Rightarrow> nat \<Rightarrow> 'a result" where
  "list_at xs i =
     (case lookup_attribute ''list'' list_members ''at'' of
        Inl e \<Rightarrow> Inl e
      | Inr _ \<Rightarrow> if i < length xs then Inr (xs ! i) else Inl IndexError)"

definition select ::
  "QWebEngineClientCertificateSelection \<Rightarrow> QSslCertificate
     \<Rightarrow> QWebEngineClientCertificateSelection" where
  "select selection certificate = selection\<lparr>selected := Some certificate\<rparr>"

definition on_select_client_certificate ::
  "QWebEngineClientCertificateSelection
     \<Rightarrow> error option \<times> QWebEngineClientCertificateSelection" where
  "on_select_client_certificate selection =
     (case list_at (certificates selection) 0 of
        Inl e \<Rightarrow> (Some e, selection)
      | Inr certificate \<Rightarrow> (None, select selection certificate))"

section \<open>Attribute lookups that fail\<close>

lemma str_isEmpty_raises: "str_isEmpty s = Inl (AttributeError ''str'' ''isEmpty'')"
  by (simp add: str_isEmpty_def lookup_attribute_def str_members_def)

lemma list_at_raises: "list_at xs i = Inl (AttributeError ''list'' ''at'')"
  by (simp add: list_at_def lookup_attribute_def list_members_def)

lemma get_icon_raises: "get_icon self = Inl (AttributeError ''WebView'' ''get_icon'')"
  by (simp add: get_icon_def lookup_attribute_def WebView_members_def)

lemma addSeperator_raises: "addSeperator w = Inl (AttributeError ''QMenu'' ''addSeperator'')"
  by (simp add: addSeperator_def lookup_attribute_def QMenu_members_def)

lemma QMessageBox_Question_raises:
  "QMessageBox_call ''Question'' = Inl (TypeError ''Icon object is not callable'')"
  by (simp add: QMessageBox_call_def QMessageBox_member_def)

lemma QMessageBox_question_callable: "QMessageBox_call ''question'' = Inr ()"
  by (simp add: QMessageBox_call_def QMessageBox_member_def)

section \<open>Favicon resolution\<close>

lemma get_favicon_is_icon: "get_favicon self = icon self"
  by (simp add: get_favicon_def icon_value_def)

text \<open>
  C1: a favicon is returned unchanged at every progress, but so is the null icon of a
  page without favicon: \<^verbatim>\<open>self.icon()\<close> is never \<^verbatim>\<open>None\<close>, the test
  \<^verbatim>\<open>icon is not None\<close> always succeeds, and neither the error icon at progress -1, nor
  the loading icon at 45, nor the default icon at 100 is ever returned.
\<close>

theorem get_favicon_no_status_icon:
  "get_favicon (WebView_init \<lparr>icon = NullIcon, page = 0, profile = 0\<rparr>
      \<lparr>icon := Favicon ''site'', load_progress := 45\<rparr>) = Favicon ''site'' \<and>
   get_favicon (WebView_init \<lparr>icon = NullIcon, page = 0, profile = 0\<rparr>
      \<lparr>load_progress := - 1\<rparr>) = NullIcon \<and>
   get_favicon (WebView_init \<lparr>icon = NullIcon, page = 0, profile = 0\<rparr>
      \<lparr>load_progress := - 1\<rparr>) \<noteq> standardIcon SP_BrowserStop \<and>
   get_favicon (WebView_init \<lparr>icon = NullIcon, page = 0, profile = 0\<rparr>
      \<lparr>load_progress := 45\<rparr>) = NullIcon \<and>
   get_favicon (WebView_init \<lparr>icon = NullIcon, page = 0, profile = 0\<rparr>
      \<lparr>load_progress := 45\<rparr>) \<noteq> standardIcon SP_BrowserReload \<and>
   get_favicon (WebView_init \<lparr>icon = NullIcon, page = 0, profile = 0\<rparr>
      \<lparr>load_progress := 100\<rparr>) = NullIcon \<and>
   get_favicon (WebView_init \<lparr>icon = NullIcon, page = 0, profile = 0\<rparr>
      \<lparr>load_progress := 100\<rparr>) \<noteq> standardIcon SP_MessageBoxInformation"
  by (simp add: get_favicon_is_icon WebView_init_def standardIcon_def)

text \<open>
  C10: a view that has just been constructed reports a load progress of 100, but for a
  page without favicon its icon is the null icon, not the default informational icon:
  the final \<^verbatim>\<open>else\<close> of \<^verbatim>\<open>get_favicon\<close> is never reached.
\<close>

theorem fresh_view_progress_and_icon:
  "get_load_progress (WebView_init \<lparr>icon = NullIcon, page = 0, profile = 0\<rparr>) = 100 \<and>
   get_favicon (WebView_init \<lparr>icon = NullIcon, page = 0, profile = 0\<rparr>) = NullIcon \<and>
   get_favicon (WebView_init \<lparr>icon = NullIcon, page = 0, profile = 0\<rparr>)
     \<noteq> standardIcon SP_MessageBoxInformation"
  by (simp add: get_favicon_is_icon get_load_progress_def WebView_init_def standardIcon_def)

lemma fresh_view_progress: "get_load_progress (WebView_init base) = 100"
  by (simp add: get_load_progress_def WebView_init_def)

section \<open>Load progress\<close>

lemma on_load_started_progress: "get_load_progress (snd (on_load_started self)) = 0"
  by (simp add: on_load_started_def get_icon_raises get_load_progress_def)

lemma on_load_started_raises:
  "on_load_started self =
     (Some (AttributeError ''WebView'' ''get_icon''), self\<lparr>load_progress := 0\<rparr>)"
  by (simp add: on_load_started_def get_icon_raises)

lemma progress_trace_progress_events:
  "progress_trace (map LoadProgress ps @ [LoadFinished success]) self =
     ps @ [if success then 100 else - 1]"
proof (induction ps arbitrary: self)
  case Nil
  show ?case by (simp add: on_load_finished_def get_load_progress_def)
next
  case (Cons p ps)
  show ?case
    by (simp add: Cons.IH on_load_progress_changed_def get_load_progress_def)
qed

text \<open>
  C2, as stated, fails: the view stores each reported progress as it comes, so a load
  started, then reported at 50 and at 30 percent, leaves the stored values 0, 50, 30
  before the load finishes.
\<close>

theorem progress_not_monotone_counterexample:
  "progress_trace [LoadStarted, LoadProgress 50, LoadProgress 30, LoadFinished True]
     (WebView_init \<lparr>icon = NullIcon, page = 0, profile = 0\<rparr>) = [0, 50, 30, 100] \<and>
   \<not> sorted (butlast (progress_trace
        [LoadStarted, LoadProgress 50, LoadProgress 30, LoadFinished True]
        (WebView_init \<lparr>icon = NullIcon, page = 0, profile = 0\<rparr>)))"
  by (simp add: on_load_started_raises on_load_progress_changed_def
      on_load_finished_def get_load_progress_def)

text \<open>
  C2, amended: for every load started, reported at \<open>ps\<close> and finished, the stored
  progress is 0 after the start, then each reported value in turn, exactly as
  delivered, and 100 or -1 after the finish, as the load succeeded or not. A progress
  report changes nothing but the stored progress.
\<close>

theorem load_cycle_progress:
  "progress_trace (LoadStarted # map LoadProgress ps @ [LoadFinished success]) self
     = 0 # ps @ [if success then 100 else - 1] \<and>
   get_load_progress (snd (on_load_started self)) = 0 \<and>
   on_load_progress_changed self p = (None, self\<lparr>load_progress := p\<rparr>) \<and>
   get_load_progress (snd (on_load_progress_changed self p)) = p \<and>
   get_load_progress (snd (on_load_finished self success)) = (if success then 100 else - 1)"
proof -
  have "progress_trace (LoadStarted # map LoadProgress ps @ [LoadFinished success]) self
          = 0 # ps @ [if success then 100 else - 1]"
    using on_load_started_progress [of self]
    by (simp add: progress_trace_progress_events)
  moreover have "get_load_progress (snd (on_load_started self)) = 0"
    by (rule on_load_started_progress)
  moreover have "on_load_progress_changed self p = (None, self\<lparr>load_progress := p\<rparr>)"
    by (simp add: on_load_progress_changed_def)
  moreover have "get_load_progress (snd (on_load_progress_changed self p)) = p"
    by (simp add: on_load_progress_changed_def get_load_progress_def)
  moreover have
    "get_load_progress (snd (on_load_finished self success)) = (if success then 100 else - 1)"
    by (simp add: on_load_finished_def get_load_progress_def)
  ultimately show ?thesis by blast
qed

section \<open>Certificate errors\<close>

lemma page_is_no_widget_parent:
  "widget_parent ThisPage = Inl (TypeError ''argument 1 has unexpected type WebPage'')"
  by (simp add: widget_parent_def)

lemma certificateError_raises:
  "certificateError default_flags user error =
     (Inl (TypeError ''argument 1 has unexpected type WebPage''), [])"
  by (simp add: certificateError_def QDialog_with_parent_def QMessageBox_critical_def
      page_is_no_widget_parent)

text \<open>
  C6: for an overridable certificate error no dialog is shown and no decision is
  returned, whether the user would accept or not, and for an error that is not
  overridable no notice is shown and \<^verbatim>\<open>False\<close> is not returned: \<^verbatim>\<open>QDialog(self)\<close> and
  \<^verbatim>\<open>QMessageBox.critical(self, ...)\<close> are given the page, which is not a widget, as
  parent, and raise \<^verbatim>\<open>TypeError\<close>.
\<close>

theorem certificateError_shows_nothing:
  "certificateError 0x00010003 Accepted \<lparr>isOverridable = True, errorDescription = ''expired''\<rparr>
     = (Inl (TypeError ''argument 1 has unexpected type WebPage''), []) \<and>
   certificateError 0x00010003 Rejected \<lparr>isOverridable = True, errorDescription = ''expired''\<rparr>
     = (Inl (TypeError ''argument 1 has unexpected type WebPage''), []) \<and>
   certificateError 0x00010003 Rejected \<lparr>isOverridable = False, errorDescription = ''revoked''\<rparr>
     = (Inl (TypeError ''argument 1 has unexpected type WebPage''), [])"
  by (simp add: certificateError_raises)

section \<open>Feature permissions\<close>

lemma on_feature_permission_requested_raises:
  "on_feature_permission_requested user self request feature x =
     (Some (AttributeError ''str'' ''isEmpty''), self)"
  by (simp add: on_feature_permission_requested_def str_isEmpty_raises)

text \<open>
  C3: a request for \<^verbatim>\<open>Notifications\<close>, the feature without a question in the
  dictionary, shows no prompt, but it is not resolved either: the default \<^verbatim>\<open>""\<close> is
  a Python \<^verbatim>\<open>str\<close>, \<^verbatim>\<open>question.isEmpty()\<close> raises \<^verbatim>\<open>AttributeError\<close>, and
  \<^verbatim>\<open>setFeaturePermission\<close> is never reached, whatever the user would answer.
\<close>

theorem feature_permission_unmapped_not_denied:
  "dict_get (features \<lparr>url_scheme = ''https'', url_host = ''example.org''\<rparr>) Notifications []
     = [] \<and>
   on_feature_permission_requested No \<lparr>page_prompts = [], permissions = []\<rparr>
       \<lparr>url_scheme = ''https'', url_host = ''example.org''\<rparr> Notifications ()
     = (Some (AttributeError ''str'' ''isEmpty''), \<lparr>page_prompts = [], permissions = []\<rparr>) \<and>
   on_feature_permission_requested Yes \<lparr>page_prompts = [], permissions = []\<rparr>
       \<lparr>url_scheme = ''https'', url_host = ''example.org''\<rparr> Notifications ()
     = (Some (AttributeError ''str'' ''isEmpty''), \<lparr>page_prompts = [], permissions = []\<rparr>)"
  by (simp add: on_feature_permission_requested_raises dict_get_def features_def)

section \<open>New windows\<close>

lemma createWindow_tabs:
  "returned (createWindow tab_widget popup_view self (EnumMember WebBrowserTab))
     = Inr (Some (add_tab tab_widget)) \<and>
   returned (createWindow tab_widget popup_view self (EnumMember WebBrowserBackgroundTab))
     = Inr (Some (add_background_tab tab_widget)) \<and>
   returned (createWindow tab_widget popup_view self (EnumMember WebBrowserWindow))
     = Inr (Some (current_tab tab_widget)) \<and>
   calls (createWindow tab_widget popup_view self (EnumMember WebBrowserWindow))
     = [Call_get_central_widget, Call_current_tab] \<and>
   returned (createWindow tab_widget popup_view self (OtherValue n)) = Inr None"
  by (simp add: createWindow_def)

lemma createWindow_dialog_raises:
  "returned (createWindow tab_widget popup_view self (EnumMember WebDialog))
     = Inl (TypeError ''argument 1 has unexpected type NoneType'') \<and>
   popup_dev_tools_slots (createWindow tab_widget popup_view self (EnumMember WebDialog)) = [] \<and>
   emitted (view_after (createWindow tab_widget popup_view self (EnumMember WebDialog)))
     = emitted self @ [signal_dev_tools_requested (page self)]"
  by (simp add: createWindow_def on_dev_tools_requested_def pyqt_connect_def emit_def)

text \<open>
  C4: for \<^verbatim>\<open>WebDialog\<close> the popup window is constructed, but
  \<^verbatim>\<open>connect(self._on_dev_tools_requested())\<close> calls the handler on the spot, which
  emits the view's dev-tools-requested signal, and hands its result \<^verbatim>\<open>None\<close> to
  \<^verbatim>\<open>connect\<close>: nothing is wired to the popup's notification and no view is returned.
\<close>

theorem createWindow_dialog_returns_no_view:
  "returned (createWindow \<lparr>add_tab = 11, add_background_tab = 12, current_tab = 10\<rparr>
       (\<lambda>p. 20) (WebView_init \<lparr>icon = NullIcon, page = 7, profile = 3\<rparr>) (EnumMember WebDialog))
     = Inl (TypeError ''argument 1 has unexpected type NoneType'') \<and>
   calls (createWindow \<lparr>add_tab = 11, add_background_tab = 12, current_tab = 10\<rparr>
       (\<lambda>p. 20) (WebView_init \<lparr>icon = NullIcon, page = 7, profile = 3\<rparr>) (EnumMember WebDialog))
     = [Call_get_central_widget, Call_PopupWindow 3] \<and>
   popup_dev_tools_slots (createWindow \<lparr>add_tab = 11, add_background_tab = 12, current_tab = 10\<rparr>
       (\<lambda>p. 20) (WebView_init \<lparr>icon = NullIcon, page = 7, profile = 3\<rparr>) (EnumMember WebDialog))
     = [] \<and>
   emitted (view_after (createWindow \<lparr>add_tab = 11, add_background_tab = 12, current_tab = 10\<rparr>
       (\<lambda>p. 20) (WebView_init \<lparr>icon = NullIcon, page = 7, profile = 3\<rparr>) (EnumMember WebDialog)))
     = [signal_dev_tools_requested 7]"
  by (simp add: createWindow_def on_dev_tools_requested_def pyqt_connect_def emit_def
      WebView_init_def)

section \<open>Client certificates\<close>

lemma on_select_client_certificate_raises:
  "on_select_client_certificate selection = (Some (AttributeError ''list'' ''at''), selection)"
  by (simp add: on_select_client_certificate_def list_at_raises)

text \<open>
  C5: for a selection with three certificates no prompt is shown, but no certificate
  is selected either: \<^verbatim>\<open>certificates()\<close> is a Python list, \<^verbatim>\<open>.at(0)\<close> raises
  \<^verbatim>\<open>AttributeError\<close>, and \<^verbatim>\<open>select\<close> is never reached.
\<close>

theorem select_client_certificate_selects_nothing:
  "on_select_client_certificate
     \<lparr>certificates = [''cert-a'', ''cert-b'', ''cert-c''], selected = None,
      selection_prompts = []\<rparr>
   = (Some (AttributeError ''list'' ''at''),
      \<lparr>certificates = [''cert-a'', ''cert-b'', ''cert-c''], selected = None,
       selection_prompts = []\<rparr>)"
  by (simp add: on_select_client_certificate_raises)

section \<open>Render process termination\<close>

lemma termination_msg_bound: "\<exists>msg. termination_msg status = Inr msg"
  by (cases status) (simp_all add: termination_msg_def)

lemma on_render_process_terminated_raises:
  "on_render_process_terminated user self status status_code =
     (Some (TypeError ''Icon object is not callable''), self)"
proof -
  obtain msg where "termination_msg status = Inr msg"
    using termination_msg_bound by blast
  then show ?thesis
    by (simp add: on_render_process_terminated_def QMessageBox_Question_raises)
qed

text \<open>
  C7: for a crashed render process with exit code 139 the cause string is found, but
  no prompt is shown and the page is not reloaded, even for a user who would answer
  Yes: \<^verbatim>\<open>QMessageBox.Question\<close> is an enumeration value, not the function
  \<^verbatim>\<open>QMessageBox.question\<close>, and calling it raises \<^verbatim>\<open>TypeError\<close>.
\<close>

theorem render_process_terminated_no_prompt:
  "termination_msg CrashedTerminationStatus = Inr ''Render process crashed.'' \<and>
   on_render_process_terminated Yes (WebView_init \<lparr>icon = NullIcon, page = 0, profile = 0\<rparr>)
       CrashedTerminationStatus 139
     = (Some (TypeError ''Icon object is not callable''),
        WebView_init \<lparr>icon = NullIcon, page = 0, profile = 0\<rparr>) \<and>
   shown (snd (on_render_process_terminated Yes
       (WebView_init \<lparr>icon = NullIcon, page = 0, profile = 0\<rparr>) CrashedTerminationStatus 139)) = [] \<and>
   reloads (snd (on_render_process_terminated Yes
       (WebView_init \<lparr>icon = NullIcon, page = 0, profile = 0\<rparr>) CrashedTerminationStatus 139)) = 0"
  by (simp add: on_render_process_terminated_raises termination_msg_def tr_def WebView_init_def)

section \<open>Context menu\<close>

lemma list_index_member:
  "x \<in> set xs \<Longrightarrow> \<exists>i. list_index xs x = Inr i \<and> xs ! i = x"
  by (induction xs) auto

lemma contextMenuEvent_relabels:
  assumes present: "action_of InspectElement \<in> set (menu_actions w)"
  shows "fst (contextMenuEvent action_of w pos) = None \<and>
         menu_actions (snd (contextMenuEvent action_of w pos)) = menu_actions w \<and>
         popup_at (snd (contextMenuEvent action_of w pos)) = Some pos \<and>
         objects (snd (contextMenuEvent action_of w pos)) (action_of InspectElement)
           = map_option (\<lambda>a. a\<lparr>action_text := ''Inspect element''\<rparr>)
               (objects w (action_of InspectElement))"
proof -
  from list_index_member [OF present]
  obtain i where idx: "list_index (menu_actions w) (action_of InspectElement) = Inr i"
    and at: "menu_actions w ! i = action_of InspectElement"
    by (elim exE conjE)
  have run: "contextMenuEvent action_of w pos =
      (None, popup pos (setText (action_of InspectElement) ''Inspect element'' w))"
    unfolding contextMenuEvent_def Let_def
    by (simp only: present idx at simp_thms if_True if_False sum.case tr_def)
  show ?thesis
    unfolding run
    by (cases "objects w (action_of InspectElement)") (simp_all add: popup_def setText_def)
qed

lemma contextMenuEvent_inserts_nothing:
  assumes "action_of InspectElement \<notin> set (menu_actions w)"
  shows "fst (contextMenuEvent action_of w pos) \<noteq> None \<and>
         menu_actions (snd (contextMenuEvent action_of w pos)) = menu_actions w \<and>
         popup_at (snd (contextMenuEvent action_of w pos)) = popup_at w"
  using assms
  by (simp add: contextMenuEvent_def Let_def addSeperator_raises insertAction_def
      QAction_new_def setText_def connect_triggered_def)

text \<open>
  C8: on a menu with neither "Inspect Element" nor "View Source" (here the actions 2
  and 3, with 0 and 1 the page's inspect and view-source actions) the insert branch
  stops at \<^verbatim>\<open>menu.addSeperator()\<close>, a name \<^verbatim>\<open>QMenu\<close> does not have: no entry is
  inserted and the menu is not shown. With "View Source" in the menu the branch stops
  at \<^verbatim>\<open>menu.insertAction(action)\<close>, which lacks the action to insert before: again the
  menu keeps its entries and is not shown.
\<close>

theorem contextMenuEvent_no_entry_inserted:
  "fst (contextMenuEvent (\<lambda>a. case a of InspectElement \<Rightarrow> 0 | ViewSource \<Rightarrow> 1)
     \<lparr>objects = (\<lambda>r. if r < 4
          then Some \<lparr>action_text = [], is_separator = False, triggered_slots = []\<rparr> else None),
      next_ref = 4, menu_actions = [2, 3], popup_at = None\<rparr> (10, 20))
     = Some (AttributeError ''QMenu'' ''addSeperator'') \<and>
   menu_actions (snd (contextMenuEvent (\<lambda>a. case a of InspectElement \<Rightarrow> 0 | ViewSource \<Rightarrow> 1)
     \<lparr>objects = (\<lambda>r. if r < 4
          then Some \<lparr>action_text = [], is_separator = False, triggered_slots = []\<rparr> else None),
      next_ref = 4, menu_actions = [2, 3], popup_at = None\<rparr> (10, 20))) = [2, 3] \<and>
   popup_at (snd (contextMenuEvent (\<lambda>a. case a of InspectElement \<Rightarrow> 0 | ViewSource \<Rightarrow> 1)
     \<lparr>objects = (\<lambda>r. if r < 4
          then Some \<lparr>action_text = [], is_separator = False, triggered_slots = []\<rparr> else None),
      next_ref = 4, menu_actions = [2, 3], popup_at = None\<rparr> (10, 20))) = None \<and>
   fst (contextMenuEvent (\<lambda>a. case a of InspectElement \<Rightarrow> 0 | ViewSource \<Rightarrow> 1)
     \<lparr>objects = (\<lambda>r. if r < 4
          then Some \<lparr>action_text = [], is_separator = False, triggered_slots = []\<rparr> else None),
      next_ref = 4, menu_actions = [1, 2, 3], popup_at = None\<rparr> (10, 20))
     = Some (TypeError ''insertAction(before, action): not enough arguments'') \<and>
   menu_actions (snd (contextMenuEvent (\<lambda>a. case a of InspectElement \<Rightarrow> 0 | ViewSource \<Rightarrow> 1)
     \<lparr>objects = (\<lambda>r. if r < 4
          then Some \<lparr>action_text = [], is_separator = False, triggered_slots = []\<rparr> else None),
      next_ref = 4, menu_actions = [1, 2, 3], popup_at = None\<rparr> (10, 20))) = [1, 2, 3] \<and>
   popup_at (snd (contextMenuEvent (\<lambda>a. case a of InspectElement \<Rightarrow> 0 | ViewSource \<Rightarrow> 1)
     \<lparr>objects = (\<lambda>r. if r < 4
          then Some \<lparr>action_text = [], is_separator = False, triggered_slots = []\<rparr> else None),
      next_ref = 4, menu_actions = [1, 2, 3], popup_at = None\<rparr> (10, 20))) = None"
  by (simp add: contextMenuEvent_def Let_def addSeperator_raises insertAction_def
      QAction_new_def setText_def connect_triggered_def)

section \<open>Authentication\<close>

lemma authentication_leaves_store:
  "authenticators (on_authentication_required default_flags store request auth) = store \<and>
   authenticators (on_proxy_authentication_required default_flags store request auth proxy_host)
     = store \<and>
   auth_prompts (on_authentication_required default_flags store request auth) = [] \<and>
   auth_prompts (on_proxy_authentication_required default_flags store request auth proxy_host)
     = []"
  by (simp add: on_authentication_required_def on_proxy_authentication_required_def Let_def)



end
